theory Spec2Isabelle
  imports Main "HOL-Library.AList"
begin

section \<open>Python values and dictionaries\<close>

text \<open>
  The raw device status is a Python \<^verbatim>\<open>dict\<close> from string keys to the values the
  transport delivers. Strings and integers are modelled; \<^verbatim>\<open>None\<close> is a value
  of its own, because \<^verbatim>\<open>dict.get\<close> returns it for a missing key and the code
  compares that result with pattern values. Numeric status values are taken to be
  integers.

  A \<^verbatim>\<open>dict\<close> keeps its insertion order, so it is an association list read
  through \<open>map_of\<close> and written through \<open>AList.update\<close>: assigning to a key that
  exists keeps its position, a new key goes to the end.
\<close>

datatype val = VNone | VStr string | VInt int

type_synonym 'v dict = "(string \<times> 'v) list"

type_synonym status = "val dict"

type_synonym pattern = "val dict"

datatype py_error = ValueError | TypeError | AttributeError | IndexError | StopIteration

text \<open>\<^verbatim>\<open>d.get(k)\<close>: the value stored under \<open>k\<close>, \<^verbatim>\<open>None\<close> when there is none.\<close>

definition dict_get :: "val dict \<Rightarrow> string \<Rightarrow> val" where
  "dict_get d k = (case map_of d k of None \<Rightarrow> VNone | Some v \<Rightarrow> v)"

text \<open>\<^verbatim>\<open>d.update(other)\<close>: the items of \<open>other\<close> are assigned in their order.\<close>

definition dict_update :: "'v dict \<Rightarrow> 'v dict \<Rightarrow> 'v dict" where
  "dict_update d other = foldl (\<lambda>acc (k, v). AList.update k v acc) d other"

section \<open>Capability description of a device class\<close>

text \<open>
  The class attributes the projections and commands of
  \<^verbatim>\<open>PhilipsGenericFanBase\<close> read, together with the tables assembled at
  construction (\<^verbatim>\<open>_available_preset_modes\<close>, \<^verbatim>\<open>_available_speeds\<close>).
  \<^verbatim>\<open>KEY_OSCILLATION\<close> is a dict from the oscillation key to the dict of its
  switch values.
\<close>

record device =
  KEY_PHILIPS_POWER :: string
  STATE_POWER_ON :: val
  STATE_POWER_OFF :: val
  REPLACE_PRESET :: "(string \<times> string) option"
  REPLACE_SPEED :: "(string \<times> string) option"
  KEY_OSCILLATION :: "(val dict) dict option"
  available_preset_modes :: "pattern dict"
  available_speeds :: "pattern dict"

section \<open>State projection: preset mode\<close>

text \<open>
  The inner loop of \<^verbatim>\<open>preset_mode\<close> and \<^verbatim>\<open>percentage\<close>: every item of the
  pattern is compared with the status, the key replaced by the second component of
  the substitution when it equals the first; the first item that differs breaks the
  loop, and the \<^verbatim>\<open>else\<close> branch of the \<^verbatim>\<open>for\<close> is reached when none did.
\<close>

fun pattern_loop :: "(string \<times> string) option \<Rightarrow> status \<Rightarrow> pattern \<Rightarrow> bool" where
  "pattern_loop rep st [] = True"
| "pattern_loop rep st ((k, v) # items) =
     (let k' = (case rep of None \<Rightarrow> k | Some (src, dst) \<Rightarrow> if k = src then dst else k)
      in if dict_get st k' \<noteq> v then False else pattern_loop rep st items)"

fun preset_mode_loop :: "(string \<times> string) option \<Rightarrow> status \<Rightarrow> pattern dict \<Rightarrow> string option" where
  "preset_mode_loop rep st [] = None"
| "preset_mode_loop rep st ((preset, status_pattern) # rest) =
     (if pattern_loop rep st status_pattern then Some preset
      else preset_mode_loop rep st rest)"

definition preset_mode :: "device \<Rightarrow> status \<Rightarrow> string option" where
  "preset_mode dev st = preset_mode_loop (REPLACE_PRESET dev) st (available_preset_modes dev)"

text \<open>
  The projection as the specification words it: the lookup key of a pair is the
  substituted key, a pattern matches when all its pairs equal the status, and the
  result is the name of the first declared pattern that matches.
\<close>

definition replace_key :: "(string \<times> string) option \<Rightarrow> string \<Rightarrow> string" where
  "replace_key rep k = (case rep of None \<Rightarrow> k | Some (src, dst) \<Rightarrow> if k = src then dst else k)"

definition pattern_matches :: "(string \<times> string) option \<Rightarrow> status \<Rightarrow> pattern \<Rightarrow> bool" where
  "pattern_matches rep st p = list_all (\<lambda>(k, v). dict_get st (replace_key rep k) = v) p"

definition first_match_preset :: "device \<Rightarrow> status \<Rightarrow> string option" where
  "first_match_preset dev st =
     map_option fst (find (\<lambda>(name, p). pattern_matches (REPLACE_PRESET dev) st p)
                          (available_preset_modes dev))"

section \<open>Constants of the integration\<close>

text \<open>
  The module of constants (\<^verbatim>\<open>const.py\<close>) is not among the sources. The
  constants the modelled code reads are parameters, collected in one record:
  the legacy keys \<^verbatim>\<open>PhilipsApi.POWER\<close>, \<^verbatim>\<open>PhilipsApi.MODE\<close> and
  \<^verbatim>\<open>PhilipsApi.SPEED\<close>, the value \<^verbatim>\<open>PhilipsApi.POWER_MAP[SWITCH_ON]\<close>, the
  names of the switch entries and the preset names of \<^verbatim>\<open>PresetMode\<close>.
\<close>

record philips_consts =
  PhilipsApi_POWER :: string
  PhilipsApi_MODE :: string
  PhilipsApi_SPEED :: string
  POWER_MAP_SWITCH_ON :: val
  SWITCH_ON :: string
  SWITCH_OFF :: string
  PresetMode_AUTO :: string
  PresetMode_ALLERGEN :: string
  PresetMode_NIGHT :: string
  PresetMode_SPEED_1 :: string
  PresetMode_SPEED_2 :: string
  PresetMode_SPEED_3 :: string
  PresetMode_TURBO :: string
  PresetMode_SLEEP :: string
  PresetMode_GENTLE :: string

section \<open>State projection: power and oscillation\<close>

definition is_on :: "device \<Rightarrow> status \<Rightarrow> bool" where
  "is_on dev st = (dict_get st (KEY_PHILIPS_POWER dev) = STATE_POWER_ON dev)"

text \<open>
  \<^verbatim>\<open>next(iter(d))\<close> is the first key of the dict and raises on an empty one.
\<close>

definition oscillating :: "philips_consts \<Rightarrow> device \<Rightarrow> status \<Rightarrow> py_error + bool option" where
  "oscillating c dev st =
     (case KEY_OSCILLATION dev of
        None \<Rightarrow> Inr None
      | Some osc \<Rightarrow>
          (case osc of
             [] \<Rightarrow> Inl StopIteration
           | (key, values) # _ \<Rightarrow>
               (let off = dict_get values (SWITCH_OFF c);
                    status = dict_get st key
                in if status = VNone then Inr None else Inr (Some (status \<noteq> off)))))"

section \<open>Percentage discretisation\<close>

text \<open>
  Modelled from the spec: \<^verbatim>\<open>ordered_list_item_to_percentage\<close> and
  \<^verbatim>\<open>percentage_to_ordered_list_item\<close> are not among the sources; the fan imports
  them from the library of the hosting platform (\<^verbatim>\<open>homeassistant.util.percentage\<close>).
  The specification describes them as the even discretisation of the ordinal position
  over the number of declared speeds. They are written as that library defines them.
  The item at position \<open>i\<close> (counted from 1) of \<open>n\<close> items has the percentage
  \<open>(i * 100) // n\<close>, so three speeds have 33, 66 and 100, and an item that is not in the
  list raises. A percentage is mapped to the first item whose percentage is not below
  it, to the last item when there is none, and an empty list raises.
\<close>

fun list_index :: "'a list \<Rightarrow> 'a \<Rightarrow> nat" where
  "list_index [] x = 0"
| "list_index (y # ys) x = (if y = x then 0 else Suc (list_index ys x))"

definition ordered_list_item_to_percentage :: "'a list \<Rightarrow> 'a \<Rightarrow> py_error + int" where
  "ordered_list_item_to_percentage ordered_list item =
     (if item \<notin> set ordered_list then Inl ValueError
      else (let list_len = int (length ordered_list);
                list_position = int (list_index ordered_list item) + 1
            in Inr ((list_position * 100) div list_len)))"

fun percentage_item_loop :: "'a list \<Rightarrow> nat \<Rightarrow> int \<Rightarrow> int \<Rightarrow> 'a option" where
  "percentage_item_loop [] offset list_len percentage = None"
| "percentage_item_loop (speed # rest) offset list_len percentage =
     (let list_position = int offset + 1;
          upper_bound = (list_position * 100) div list_len
      in if percentage \<le> upper_bound then Some speed
         else percentage_item_loop rest (Suc offset) list_len percentage)"

definition percentage_to_ordered_list_item :: "'a list \<Rightarrow> int \<Rightarrow> py_error + 'a" where
  "percentage_to_ordered_list_item ordered_list percentage =
     (if ordered_list = [] then Inl ValueError
      else (case percentage_item_loop ordered_list 0 (int (length ordered_list)) percentage of
              Some speed \<Rightarrow> Inr speed
            | None \<Rightarrow> Inr (last ordered_list)))"

section \<open>State projection: percentage\<close>

text \<open>
  \<^verbatim>\<open>self._speeds\<close> is the list of the keys of the assembled speed table. The loop is
  that of \<^verbatim>\<open>preset_mode\<close> with \<^verbatim>\<open>REPLACE_SPEED\<close>; the matched speed is turned
  into its percentage.
\<close>

definition speeds :: "device \<Rightarrow> string list" where
  "speeds dev = map fst (available_speeds dev)"

definition percentage :: "device \<Rightarrow> status \<Rightarrow> py_error + int option" where
  "percentage dev st =
     (case preset_mode_loop (REPLACE_SPEED dev) st (available_speeds dev) of
        None \<Rightarrow> Inr None
      | Some speed \<Rightarrow>
          (case ordered_list_item_to_percentage (speeds dev) speed of
             Inl e \<Rightarrow> Inl e
           | Inr p \<Rightarrow> Inr (Some p)))"

section \<open>Commands of the generic fan\<close>

text \<open>
  A command acts on the status dict the entity shares with its coordinator and on the
  outside world. The world is the list of what happened, in order: the calls of the
  transport client (\<^verbatim>\<open>set_control_value\<close> for one key,
  \<^verbatim>\<open>set_control_values\<close> for a batch), the pauses of \<^verbatim>\<open>asyncio.sleep\<close> in
  seconds, and the calls of \<^verbatim>\<open>_handle_coordinator_update\<close>, which publish the
  status to the platform. The transport is taken to acknowledge every call.
\<close>

datatype effect =
    SetControlValue string val
  | SetControlValues pattern
  | Sleep nat
  | HandleCoordinatorUpdate

type_synonym world = "status \<times> effect list"

definition async_turn_off :: "device \<Rightarrow> world \<Rightarrow> world" where
  "async_turn_off dev w =
     (case w of (st, log) \<Rightarrow>
        (AList.update (KEY_PHILIPS_POWER dev) (STATE_POWER_OFF dev) st,
         log @ [SetControlValue (KEY_PHILIPS_POWER dev) (STATE_POWER_OFF dev),
                 HandleCoordinatorUpdate]))"

text \<open>\<^verbatim>\<open>if status_pattern:\<close> holds for a dict that is found and has an item.\<close>

definition async_set_preset_mode :: "device \<Rightarrow> world \<Rightarrow> string \<Rightarrow> world" where
  "async_set_preset_mode dev w preset =
     (case w of (st, log) \<Rightarrow>
        (case map_of (available_preset_modes dev) preset of
           None \<Rightarrow> w
         | Some status_pattern \<Rightarrow>
             if status_pattern \<noteq> []
             then (dict_update st status_pattern,
                   log @ [SetControlValues status_pattern, HandleCoordinatorUpdate])
             else w))"

text \<open>
  In \<^verbatim>\<open>async_set_percentage\<close> the write is guarded by \<^verbatim>\<open>if status_pattern:\<close>,
  the update of the status and the publication are not; \<^verbatim>\<open>dict.update(None)\<close>
  raises.
\<close>

definition async_set_percentage :: "device \<Rightarrow> world \<Rightarrow> int \<Rightarrow> py_error + world" where
  "async_set_percentage dev w pct =
     (if pct = 0 then Inr (async_turn_off dev w)
      else (case percentage_to_ordered_list_item (speeds dev) pct of
              Inl e \<Rightarrow> Inl e
            | Inr speed \<Rightarrow>
                (case w of (st, log) \<Rightarrow>
                   (case map_of (available_speeds dev) speed of
                      None \<Rightarrow> Inl TypeError
                    | Some status_pattern \<Rightarrow>
                        Inr (dict_update st status_pattern,
                             log @ (if status_pattern \<noteq> []
                                     then [SetControlValues status_pattern] else [])
                                  @ [HandleCoordinatorUpdate])))))"

text \<open>
  \<^verbatim>\<open>if preset_mode:\<close> holds for a string that is given and not empty,
  \<^verbatim>\<open>if percentage:\<close> for a number that is given and not zero.
\<close>

definition async_turn_on :: "device \<Rightarrow> world \<Rightarrow> int option \<Rightarrow> string option \<Rightarrow> py_error + world" where
  "async_turn_on dev w pct preset =
     (if preset \<noteq> None \<and> preset \<noteq> Some []
      then Inr (async_set_preset_mode dev w (the preset))
      else if pct \<noteq> None \<and> pct \<noteq> Some 0
      then async_set_percentage dev w (the pct)
      else (case w of (st, log) \<Rightarrow>
              Inr (AList.update (KEY_PHILIPS_POWER dev) (STATE_POWER_ON dev) st,
                   log @ [SetControlValue (KEY_PHILIPS_POWER dev) (STATE_POWER_ON dev),
                           HandleCoordinatorUpdate])))"

definition async_oscillate :: "philips_consts \<Rightarrow> device \<Rightarrow> world \<Rightarrow> bool \<Rightarrow> py_error + world" where
  "async_oscillate c dev w osc =
     (case KEY_OSCILLATION dev of
        None \<Rightarrow> Inr w
      | Some d \<Rightarrow>
          (case d of
             [] \<Rightarrow> Inl StopIteration
           | (key, values) # _ \<Rightarrow>
               (let on = dict_get values (SWITCH_ON c);
                    off = dict_get values (SWITCH_OFF c)
                in (case w of (st, log) \<Rightarrow>
                      Inr (AList.update key (if osc then on else off) st,
                           log @ [SetControlValue key (if osc then on else off),
                                   HandleCoordinatorUpdate])))))"

section \<open>The AC1214 and its sequenced commands\<close>

text \<open>
  A dict display assigns its items from left to right. The ancestors of
  \<^verbatim>\<open>PhilipsAC1214\<close> declare empty preset and speed tables and the class declares
  its own, so the assembled tables are those of the class; power key and power values
  are those of \<^verbatim>\<open>PhilipsGenericFanBase\<close>, whose key is \<^verbatim>\<open>PhilipsApi.POWER\<close>.
\<close>

definition dict_of :: "'v dict \<Rightarrow> 'v dict" where
  "dict_of items = dict_update [] items"

definition PhilipsAC1214 :: "philips_consts \<Rightarrow> device" where
  "PhilipsAC1214 c =
     \<lparr> KEY_PHILIPS_POWER = PhilipsApi_POWER c,
       STATE_POWER_ON = VStr ''1'',
       STATE_POWER_OFF = VStr ''0'',
       REPLACE_PRESET = None,
       REPLACE_SPEED = None,
       KEY_OSCILLATION = None,
       available_preset_modes = dict_of
         [(PresetMode_AUTO c, dict_of [(PhilipsApi_MODE c, VStr ''P'')]),
          (PresetMode_ALLERGEN c, dict_of [(PhilipsApi_MODE c, VStr ''A'')]),
          (PresetMode_NIGHT c, dict_of [(PhilipsApi_MODE c, VStr ''N'')]),
          (PresetMode_SPEED_1 c,
             dict_of [(PhilipsApi_MODE c, VStr ''M''), (PhilipsApi_SPEED c, VStr ''1'')]),
          (PresetMode_SPEED_2 c,
             dict_of [(PhilipsApi_MODE c, VStr ''M''), (PhilipsApi_SPEED c, VStr ''2'')]),
          (PresetMode_SPEED_3 c,
             dict_of [(PhilipsApi_MODE c, VStr ''M''), (PhilipsApi_SPEED c, VStr ''3'')]),
          (PresetMode_TURBO c,
             dict_of [(PhilipsApi_MODE c, VStr ''M''), (PhilipsApi_SPEED c, VStr ''t'')])],
       available_speeds = dict_of
         [(PresetMode_NIGHT c, dict_of [(PhilipsApi_MODE c, VStr ''N'')]),
          (PresetMode_SPEED_1 c,
             dict_of [(PhilipsApi_MODE c, VStr ''M''), (PhilipsApi_SPEED c, VStr ''1'')]),
          (PresetMode_SPEED_2 c,
             dict_of [(PhilipsApi_MODE c, VStr ''M''), (PhilipsApi_SPEED c, VStr ''2'')]),
          (PresetMode_SPEED_3 c,
             dict_of [(PhilipsApi_MODE c, VStr ''M''), (PhilipsApi_SPEED c, VStr ''3'')]),
          (PresetMode_TURBO c,
             dict_of [(PhilipsApi_MODE c, VStr ''M''), (PhilipsApi_SPEED c, VStr ''t'')])] \<rparr>"

definition ensure_power_on :: "philips_consts \<Rightarrow> device \<Rightarrow> world \<Rightarrow> world" where
  "ensure_power_on c dev w =
     (case w of (st, log) \<Rightarrow>
        if \<not> is_on dev st
        then (st, log @ [SetControlValue (PhilipsApi_POWER c) (POWER_MAP_SWITCH_ON c), Sleep 1])
        else w)"

text \<open>
  \<^verbatim>\<open>self._available_preset_modes.get(self.preset_mode)\<close> finds nothing when the
  current preset is \<^verbatim>\<open>None\<close>. The allergen pattern is handed to the transport as it
  is looked up; a transport handed \<^verbatim>\<open>None\<close> for its data raises.
\<close>

definition ensure_mode_transition :: "philips_consts \<Rightarrow> device \<Rightarrow> world \<Rightarrow> val \<Rightarrow> py_error + world" where
  "ensure_mode_transition c dev w target_mode =
     (case w of (st, log) \<Rightarrow>
        (let current_pattern =
               (case preset_mode dev st of
                  None \<Rightarrow> None
                | Some current \<Rightarrow> map_of (available_preset_modes dev) current)
         in if target_mode \<noteq> VStr ''A''
               \<and> current_pattern \<noteq> None \<and> current_pattern \<noteq> Some []
               \<and> dict_get (the current_pattern) (PhilipsApi_MODE c) \<noteq> VStr ''M''
            then (case map_of (available_preset_modes dev) (PresetMode_ALLERGEN c) of
                    None \<Rightarrow> Inl TypeError
                  | Some a_status_pattern \<Rightarrow>
                      Inr (st, log @ [SetControlValues a_status_pattern, Sleep 1]))
            else Inr w))"

definition ac1214_async_set_preset_mode :: "philips_consts \<Rightarrow> device \<Rightarrow> world \<Rightarrow> string \<Rightarrow> py_error + world" where
  "ac1214_async_set_preset_mode c dev w preset =
     (let w1 = ensure_power_on c dev w
      in (case map_of (available_preset_modes dev) preset of
            None \<Rightarrow> Inr w1
          | Some status_pattern \<Rightarrow>
              if status_pattern \<noteq> []
              then (case ensure_mode_transition c dev w1
                           (dict_get status_pattern (PhilipsApi_MODE c)) of
                      Inl e \<Rightarrow> Inl e
                    | Inr (st, log) \<Rightarrow> Inr (st, log @ [SetControlValues status_pattern]))
              else Inr w1))"

definition ac1214_async_set_percentage :: "philips_consts \<Rightarrow> device \<Rightarrow> world \<Rightarrow> int \<Rightarrow> py_error + world" where
  "ac1214_async_set_percentage c dev w pct =
     (let w1 = ensure_power_on c dev w
      in if pct = 0 then Inr (async_turn_off dev w1)
         else (case percentage_to_ordered_list_item (speeds dev) pct of
                 Inl e \<Rightarrow> Inl e
               | Inr speed \<Rightarrow>
                   (case map_of (available_speeds dev) speed of
                      None \<Rightarrow> Inr w1
                    | Some status_pattern \<Rightarrow>
                        if status_pattern \<noteq> []
                        then (case ensure_mode_transition c dev w1
                                     (dict_get status_pattern (PhilipsApi_MODE c)) of
                                Inl e \<Rightarrow> Inl e
                              | Inr (st, log) \<Rightarrow>
                                  Inr (st, log @ [SetControlValues status_pattern]))
                        else Inr w1)))"

definition ac1214_async_turn_on :: "philips_consts \<Rightarrow> device \<Rightarrow> world \<Rightarrow> int option \<Rightarrow> string option \<Rightarrow> py_error + world" where
  "ac1214_async_turn_on c dev w pct preset =
     (let w1 = ensure_power_on c dev w
      in if preset \<noteq> None \<and> preset \<noteq> Some []
         then ac1214_async_set_preset_mode c dev w1 (the preset)
         else if pct \<noteq> None \<and> pct \<noteq> Some 0
         then ac1214_async_set_percentage c dev w1 (the pct)
         else Inr w1)"

section \<open>Capability registry assembly\<close>

text \<open>
  A class is given by the capability tables its own body declares; a table the body
  does not declare is \<open>None\<close>. An attribute is a tuple of display key, raw key and an
  optional value map, which is a dict (whose entries are plain values or tuples) or a
  function of the raw value and the whole status.
\<close>

datatype entry = Plain val | Tuple "val list"

datatype value_map = DictMap "(val \<times> entry) list" | Callable "val \<Rightarrow> status \<Rightarrow> val"

type_synonym attribute = "string \<times> string \<times> value_map option"

record py_class =
  AVAILABLE_ATTRIBUTES :: "attribute list option"
  AVAILABLE_PRESET_MODES :: "pattern dict option"
  AVAILABLE_SPEEDS :: "pattern dict option"
  AVAILABLE_BINARY_SENSORS :: "string list option"
  UNAVAILABLE_FILTERS :: "string list option"

text \<open>
  The method resolution order is the list of classes from the device class to its
  most generic ancestor. The device classes form a chain of single inheritance and the
  platform classes beside it declare no capability table, so
  \<^verbatim>\<open>getattr(cls, NAME, default)\<close> is the first declaration of the table from
  \<open>cls\<close> on, and the default when there is none: a class that does not declare a
  table yields that of its nearest declaring ancestor.
\<close>

fun getattr :: "(py_class \<Rightarrow> 'a option) \<Rightarrow> py_class list \<Rightarrow> 'a \<Rightarrow> 'a" where
  "getattr own [] dflt = dflt"
| "getattr own (cls # bases) dflt =
     (case own cls of Some a \<Rightarrow> a | None \<Rightarrow> getattr own bases dflt)"

text \<open>
  \<^verbatim>\<open>for cls in reversed(mro): xs.extend(getattr(cls, NAME, []))\<close> for a list and
  \<^verbatim>\<open>d.update(getattr(cls, NAME, {}))\<close> for a dict: the ancestors are visited
  first, the class itself last.
\<close>

fun collect_lists :: "(py_class \<Rightarrow> 'a list option) \<Rightarrow> py_class list \<Rightarrow> 'a list" where
  "collect_lists own [] = []"
| "collect_lists own (cls # bases) = collect_lists own bases @ getattr own (cls # bases) []"

fun collect_dicts :: "(py_class \<Rightarrow> 'v dict option) \<Rightarrow> py_class list \<Rightarrow> 'v dict" where
  "collect_dicts own [] = []"
| "collect_dicts own (cls # bases) =
     dict_update (collect_dicts own bases) (getattr own (cls # bases) [])"

definition collect_available_attributes :: "py_class list \<Rightarrow> attribute list" where
  "collect_available_attributes mro = collect_lists AVAILABLE_ATTRIBUTES mro"

definition collect_available_preset_modes :: "py_class list \<Rightarrow> pattern dict" where
  "collect_available_preset_modes mro = collect_dicts AVAILABLE_PRESET_MODES mro"

definition collect_available_speeds :: "py_class list \<Rightarrow> pattern dict" where
  "collect_available_speeds mro = collect_dicts AVAILABLE_SPEEDS mro"

text \<open>The two lists \<^verbatim>\<open>async_setup_entry\<close> of the binary sensors collects.\<close>

definition available_binary_sensors :: "py_class list \<Rightarrow> string list" where
  "available_binary_sensors mro = collect_lists AVAILABLE_BINARY_SENSORS mro"

definition unavailable_filters :: "py_class list \<Rightarrow> string list" where
  "unavailable_filters mro = collect_lists UNAVAILABLE_FILTERS mro"

text \<open>
  The most specific declaration of a name, as the specification words the override
  property: the entry of the first class, from the device class upwards, whose own
  table has the name.
\<close>

fun most_specific :: "(py_class \<Rightarrow> 'v dict option) \<Rightarrow> py_class list \<Rightarrow> string \<Rightarrow> 'v option" where
  "most_specific own [] name = None"
| "most_specific own (cls # bases) name =
     (case own cls of
        None \<Rightarrow> most_specific own bases name
      | Some d \<Rightarrow> (case map_of d name of
                     Some p \<Rightarrow> Some p
                   | None \<Rightarrow> most_specific own bases name))"

text \<open>A declared table is a dict: no key occurs twice in it.\<close>

definition declared_dicts :: "(py_class \<Rightarrow> 'v dict option) \<Rightarrow> py_class list \<Rightarrow> bool" where
  "declared_dicts own mro =
     list_all (\<lambda>cls. case own cls of None \<Rightarrow> True | Some d \<Rightarrow> distinct (map fst d)) mro"

section \<open>Attribute extraction\<close>

text \<open>
  The inner function \<^verbatim>\<open>append\<close> of \<^verbatim>\<open>extra_state_attributes\<close>, here \<open>append_attribute\<close>.
  \<^verbatim>\<open>philips_key.partition("#")[0]\<close> is the key up to the first marker. The dict
  lookup is guarded by \<^verbatim>\<open>value in value_map\<close>; the first component of a tuple
  entry is taken, which raises on an empty tuple.
\<close>

definition append_attribute :: "status \<Rightarrow> val dict \<Rightarrow> string \<Rightarrow> string \<Rightarrow> value_map option \<Rightarrow> py_error + val dict" where
  "append_attribute st attributes key philips_key value_map =
     (let philips_clean_key = takeWhile (\<lambda>ch. ch \<noteq> CHR ''#'') philips_key
      in (case map_of st philips_clean_key of
            None \<Rightarrow> Inr attributes
          | Some value \<Rightarrow>
              (case value_map of
                 Some (DictMap m) \<Rightarrow>
                   (case map_of m value of
                      Some (Plain v) \<Rightarrow> Inr (AList.update key v attributes)
                    | Some (Tuple []) \<Rightarrow> Inl IndexError
                    | Some (Tuple (v # _)) \<Rightarrow> Inr (AList.update key v attributes)
                    | None \<Rightarrow> Inr (AList.update key value attributes))
               | Some (Callable f) \<Rightarrow> Inr (AList.update key (f value st) attributes)
               | None \<Rightarrow> Inr (AList.update key value attributes))))"

fun extra_state_attributes_loop :: "status \<Rightarrow> val dict \<Rightarrow> attribute list \<Rightarrow> py_error + val dict" where
  "extra_state_attributes_loop st device_attributes [] = Inr device_attributes"
| "extra_state_attributes_loop st device_attributes ((key, philips_key, value_map) # rest) =
     (case append_attribute st device_attributes key philips_key value_map of
        Inl e \<Rightarrow> Inl e
      | Inr device_attributes' \<Rightarrow> extra_state_attributes_loop st device_attributes' rest)"

definition extra_state_attributes :: "attribute list \<Rightarrow> status \<Rightarrow> py_error + val dict" where
  "extra_state_attributes available_attributes st =
     extra_state_attributes_loop st [] available_attributes"

section \<open>Filter alert tracker\<close>











section \<open>Device family resolution\<close>

text \<open>
  \<^verbatim>\<open>_resolve_model\<close> of the config flow. \<^verbatim>\<open>model_to_class\<close> is declared in a
  module that is not among the sources; only its keys are used and they are a
  parameter. The WiFi version comes from \<^verbatim>\<open>status.get\<close> and may be \<^verbatim>\<open>None\<close>,
  on which \<^verbatim>\<open>split\<close> raises. \<^verbatim>\<open>s.split('@')[0]\<close> is the text before the first
  separator. Strings are ASCII, where characters and bytes coincide.
\<close>

fun first_supported :: "string set \<Rightarrow> string list \<Rightarrow> string option" where
  "first_supported model_to_class [] = None"
| "first_supported model_to_class (candidate # rest) =
     (if candidate \<in> model_to_class then Some candidate
      else first_supported model_to_class rest)"

definition resolve_model :: "string set \<Rightarrow> string option \<Rightarrow> string \<Rightarrow> py_error + string option" where
  "resolve_model model_to_class wifi_version model =
     (let model_family = take 6 model
      in (case wifi_version of
            None \<Rightarrow> Inl AttributeError
          | Some wifi \<Rightarrow>
              (let model_long = model @ '' '' @ takeWhile (\<lambda>ch. ch \<noteq> CHR ''@'') wifi
               in Inr (first_supported model_to_class [model, model_long, model_family]))))"

text \<open>
  What each step of the flow does with the answer: without a resolved model the flow
  is aborted with the reason \<^verbatim>\<open>model_unsupported\<close>, otherwise it goes on with the
  resolved model.
\<close>

datatype flow_result = Abort string | Continue string

definition resolve_or_abort :: "string set \<Rightarrow> string option \<Rightarrow> string \<Rightarrow> py_error + flow_result" where
  "resolve_or_abort model_to_class wifi_version model =
     (case resolve_model model_to_class wifi_version model of
        Inl e \<Rightarrow> Inl e
      | Inr None \<Rightarrow> Inr (Abort ''model_unsupported'')
      | Inr (Some resolved_model) \<Rightarrow> Inr (Continue resolved_model))"

section \<open>Sample constants\<close>

text \<open>
  Values for the constants of the integration, used where a property is evaluated on
  a concrete device: the legacy keys and the preset names as short strings.
\<close>

definition sample_consts :: philips_consts where
  "sample_consts =
     \<lparr> PhilipsApi_POWER = ''pwr'',
       PhilipsApi_MODE = ''mode'',
       PhilipsApi_SPEED = ''om'',
       POWER_MAP_SWITCH_ON = VStr ''1'',
       SWITCH_ON = ''on'',
       SWITCH_OFF = ''off'',
       PresetMode_AUTO = ''auto'',
       PresetMode_ALLERGEN = ''allergen'',
       PresetMode_NIGHT = ''night'',
       PresetMode_SPEED_1 = ''speed 1'',
       PresetMode_SPEED_2 = ''speed 2'',
       PresetMode_SPEED_3 = ''speed 3'',
       PresetMode_TURBO = ''turbo'',
       PresetMode_SLEEP = ''sleep'',
       PresetMode_GENTLE = ''gentle'' \<rparr>"

section \<open>A sample class hierarchy\<close>

text \<open>
  A device class without declarations of its own, its family, which redeclares a
  preset of the base and adds one, and the base class.
\<close>

definition sample_base :: py_class where
  "sample_base =
     \<lparr> AVAILABLE_ATTRIBUTES = Some [(''name'', ''name'', None)],
       AVAILABLE_PRESET_MODES = Some [(''auto'', [(''mode'', VStr ''P'')]),
                                      (''sleep'', [(''mode'', VStr ''S'')])],
       AVAILABLE_SPEEDS = Some [],
       AVAILABLE_BINARY_SENSORS = Some [],
       UNAVAILABLE_FILTERS = None \<rparr>"

definition sample_family :: py_class where
  "sample_family =
     \<lparr> AVAILABLE_ATTRIBUTES = None,
       AVAILABLE_PRESET_MODES = Some [(''turbo'', [(''mode'', VStr ''T'')]),
                                      (''auto'', [(''mode'', VStr ''AG'')])],
       AVAILABLE_SPEEDS = None,
       AVAILABLE_BINARY_SENSORS = Some [''err''],
       UNAVAILABLE_FILTERS = None \<rparr>"

definition sample_model :: py_class where
  "sample_model =
     \<lparr> AVAILABLE_ATTRIBUTES = None,
       AVAILABLE_PRESET_MODES = None,
       AVAILABLE_SPEEDS = None,
       AVAILABLE_BINARY_SENSORS = None,
       UNAVAILABLE_FILTERS = None \<rparr>"

section \<open>Sample devices, attributes and statuses\<close>

text \<open>A fan with an oscillation key, in the shape of the new2 generation.\<close>

definition sample_oscillating_fan :: device where
  "sample_oscillating_fan =
     \<lparr> KEY_PHILIPS_POWER = ''D03102'',
       STATE_POWER_ON = VInt 1,
       STATE_POWER_OFF = VInt 0,
       REPLACE_PRESET = None,
       REPLACE_SPEED = None,
       KEY_OSCILLATION = Some [(''D0320F'', [(''on'', VInt 17920), (''off'', VInt 0)])],
       available_preset_modes = [],
       available_speeds = [] \<rparr>"

text \<open>
  Two attributes in the shape of the declared ones: a plain one, and one with a
  marker in its raw key and a dict of tuples as value map.
\<close>

definition sample_attributes :: "attribute list" where
  "sample_attributes =
     [(''name'', ''name'', None),
      (''preferred_index'', ''ddp#1'',
         Some (DictMap [(VStr ''0'', Tuple [VStr ''Indoor Allergen Index'', VStr ''mdi:blur'']),
                        (VStr ''1'', Tuple [VStr ''PM2.5'', VStr ''mdi:grain''])]))]"


text \<open>
  The value that an attribute with a dict as value map displays for a raw value: the
  entry of the raw value, the first component of an entry that is a tuple, and the raw
  value itself when the dict has no entry for it. An empty tuple, on which the code
  raises, displays nothing.
\<close>

definition displayed :: "(val \<times> entry) list \<Rightarrow> val \<Rightarrow> val option" where
  "displayed m raw =
     (case map_of m raw of
        None \<Rightarrow> Some raw
      | Some (Plain v) \<Rightarrow> Some v
      | Some (Tuple []) \<Rightarrow> None
      | Some (Tuple (v # _)) \<Rightarrow> Some v)"






text \<open>
  \<^verbatim>\<open>PhilipsAC29xx\<close>, a family that uses the commands of the generic fan as they
  are. Its tables are its own, as for the AC1214.
\<close>

definition PhilipsAC29xx :: "philips_consts \<Rightarrow> device" where
  "PhilipsAC29xx c =
     \<lparr> KEY_PHILIPS_POWER = PhilipsApi_POWER c,
       STATE_POWER_ON = VStr ''1'',
       STATE_POWER_OFF = VStr ''0'',
       REPLACE_PRESET = None,
       REPLACE_SPEED = None,
       KEY_OSCILLATION = None,
       available_preset_modes = dict_of
         [(PresetMode_AUTO c,
             dict_of [(PhilipsApi_POWER c, VStr ''1''), (PhilipsApi_MODE c, VStr ''AG'')]),
          (PresetMode_SLEEP c,
             dict_of [(PhilipsApi_POWER c, VStr ''1''), (PhilipsApi_MODE c, VStr ''S'')]),
          (PresetMode_GENTLE c,
             dict_of [(PhilipsApi_POWER c, VStr ''1''), (PhilipsApi_MODE c, VStr ''GT'')]),
          (PresetMode_TURBO c,
             dict_of [(PhilipsApi_POWER c, VStr ''1''), (PhilipsApi_MODE c, VStr ''T'')])],
       available_speeds = dict_of
         [(PresetMode_SLEEP c,
             dict_of [(PhilipsApi_POWER c, VStr ''1''), (PhilipsApi_MODE c, VStr ''S'')]),
          (PresetMode_GENTLE c,
             dict_of [(PhilipsApi_POWER c, VStr ''1''), (PhilipsApi_MODE c, VStr ''GT'')]),
          (PresetMode_TURBO c,
             dict_of [(PhilipsApi_POWER c, VStr ''1''), (PhilipsApi_MODE c, VStr ''T'')])] \<rparr>"

text \<open>
  A pattern \<open>q\<close> cannot match a status to which the pattern \<open>p\<close> has just been
  written when some pair of \<open>q\<close> asks for a value of a key to which \<open>p\<close> gives another
  one.
\<close>

definition patterns_conflict :: "pattern \<Rightarrow> pattern \<Rightarrow> bool" where
  "patterns_conflict q p =
     list_ex (\<lambda>(k, v). case map_of p k of None \<Rightarrow> False | Some v' \<Rightarrow> v' \<noteq> v) q"

section \<open>Properties\<close>

lemma pattern_loop_matches: "pattern_loop rep st p = pattern_matches rep st p"
  by (induction rep st p rule: pattern_loop.induct)
     (simp_all add: pattern_matches_def replace_key_def Let_def split: option.split)

lemma preset_mode_loop_find:
  "preset_mode_loop rep st modes =
     map_option fst (find (\<lambda>(name, p). pattern_matches rep st p) modes)"
  by (induction modes) (auto simp: pattern_loop_matches)

text \<open>
  C1. The current preset is the first match: \<^verbatim>\<open>preset_mode\<close> walks the declared
  presets in their order, a preset matches when every pair of its pattern equals the
  status value under the key (the substituted key when the pair's key is the source of
  \<^verbatim>\<open>REPLACE_PRESET\<close>), the name of the first matching preset is returned, and the
  result is \<^verbatim>\<open>None\<close> when no preset matches.
\<close>

theorem preset_mode_first_match:
  "preset_mode dev st = first_match_preset dev st"
  by (simp add: preset_mode_def first_match_preset_def preset_mode_loop_find)

text \<open>
  C10. With an oscillation key declared, a status that lacks the key projects to
  \<^verbatim>\<open>None\<close>. A status that has the key with a value other than \<^verbatim>\<open>None\<close>
  projects to the boolean that says whether the raw value differs from the declared off
  value. A boolean comes out only for a key that is present.
\<close>

theorem oscillating_key_absent:
  "KEY_OSCILLATION dev = Some ((key, values) # others) \<Longrightarrow>
     (key \<notin> fst ` set st \<longrightarrow> oscillating c dev st = Inr None) \<and>
     (\<forall>raw. map_of st key = Some raw \<and> raw \<noteq> VNone \<longrightarrow>
        oscillating c dev st = Inr (Some (raw \<noteq> dict_get values (SWITCH_OFF c)))) \<and>
     (\<forall>b. oscillating c dev st = Inr (Some b) \<longrightarrow>
        key \<in> fst ` set st \<and> b = (dict_get st key \<noteq> dict_get values (SWITCH_OFF c)))"
  by (auto simp: oscillating_def dict_get_def Let_def map_of_eq_None_iff
           split: option.splits if_splits dest!: map_of_SomeD intro: rev_image_eqI)

theorem oscillating_key_absent_witness:
  "KEY_OSCILLATION sample_oscillating_fan
     = Some [(''D0320F'', [(''on'', VInt 17920), (''off'', VInt 0)])] \<and>
   oscillating sample_consts sample_oscillating_fan [(''D03102'', VInt 1)] = Inr None \<and>
   oscillating sample_consts sample_oscillating_fan
     [(''D03102'', VInt 1), (''D0320F'', VInt 17920)] = Inr (Some True) \<and>
   oscillating sample_consts sample_oscillating_fan
     [(''D03102'', VInt 1), (''D0320F'', VInt 0)] = Inr (Some False)"
proof -
  have h: "KEY_OSCILLATION sample_oscillating_fan
             = Some ((''D0320F'', [(''on'', VInt 17920), (''off'', VInt 0)]) # [])"
    by (simp add: sample_oscillating_fan_def)
  have off: "dict_get [(''on'', VInt 17920), (''off'', VInt 0)] (SWITCH_OFF sample_consts) = VInt 0"
    by (simp add: dict_get_def sample_consts_def)
  have "oscillating sample_consts sample_oscillating_fan [(''D03102'', VInt 1)] = Inr None"
    using oscillating_key_absent [OF h, of "[(''D03102'', VInt 1)]" sample_consts] by simp
  moreover have "oscillating sample_consts sample_oscillating_fan
     [(''D03102'', VInt 1), (''D0320F'', VInt 17920)] = Inr (Some True)"
    using oscillating_key_absent
            [OF h, of "[(''D03102'', VInt 1), (''D0320F'', VInt 17920)]" sample_consts] off
    by simp
  moreover have "oscillating sample_consts sample_oscillating_fan
     [(''D03102'', VInt 1), (''D0320F'', VInt 0)] = Inr (Some False)"
    using oscillating_key_absent
            [OF h, of "[(''D03102'', VInt 1), (''D0320F'', VInt 0)]" sample_consts] off
    by simp
  ultimately show ?thesis using h by simp
qed

subsection \<open>Capability registry assembly\<close>

lemma map_of_dict_update:
  "distinct (map fst other) \<Longrightarrow> map_of (dict_update d other) = map_of d ++ map_of other"
proof (induction other arbitrary: d)
  case Nil
  then show ?case by (simp add: dict_update_def)
next
  case (Cons kv other)
  obtain k v where kv: "kv = (k, v)" by (cases kv)
  from Cons.prems kv have fresh: "map_of other k = None" and dist: "distinct (map fst other)"
    by (auto simp: map_of_eq_None_iff)
  have "map_of (dict_update d (kv # other)) = map_of (dict_update (AList.update k v d) other)"
    by (simp add: dict_update_def kv)
  also have "\<dots> = (map_of d)(k \<mapsto> v) ++ map_of other"
    by (simp only: Cons.IH [OF dist] update_conv')
  also have "\<dots> = map_of d ++ map_of (kv # other)"
    using fresh by (auto simp: kv fun_eq_iff map_add_def split: option.splits)
  finally show ?case .
qed

lemma collect_lists_contains:
  "cls \<in> set mro \<Longrightarrow> own cls = Some a \<Longrightarrow> set a \<subseteq> set (collect_lists own mro)"
  by (induction mro) auto

lemma getattr_distinct:
  "declared_dicts own mro \<Longrightarrow> distinct (map fst (getattr own mro []))"
  by (induction mro) (auto simp: declared_dicts_def split: option.splits)

lemma collect_dicts_absorb:
  "declared_dicts own mro \<Longrightarrow>
   map_of (collect_dicts own mro) ++ map_of (getattr own mro []) = map_of (collect_dicts own mro)"
proof (cases mro)
  case Nil
  then show ?thesis by simp
next
  case (Cons cls bases)
  assume "declared_dicts own mro"
  then have "distinct (map fst (getattr own mro []))" by (rule getattr_distinct)
  moreover have "m ++ g ++ g = m ++ g" for m g :: "string \<rightharpoonup> 'a"
    by (simp add: fun_eq_iff map_add_def split: option.splits)
  ultimately show ?thesis
    unfolding Cons by (simp add: map_of_dict_update del: getattr.simps)
qed

lemma collect_dicts_most_specific:
  "declared_dicts own mro \<Longrightarrow> map_of (collect_dicts own mro) name = most_specific own mro name"
proof (induction mro)
  case Nil
  then show ?case by simp
next
  case (Cons cls bases)
  then have wf: "declared_dicts own bases" by (simp add: declared_dicts_def)
  show ?case
  proof (cases "own cls")
    case None
    then show ?thesis
      using Cons.IH [OF wf] collect_dicts_absorb [OF wf] getattr_distinct [OF wf]
      by (simp add: map_of_dict_update)
  next
    case (Some d)
    with Cons.prems have "distinct (map fst d)" by (simp add: declared_dicts_def)
    then show ?thesis
      using Cons.IH [OF wf] Some
      by (simp add: map_of_dict_update map_add_def split: option.splits)
  qed
qed

text \<open>
  C2. Assembly over the ancestor chain accumulates and overrides: every entry of a
  list-shaped table declared by a class of the chain is in the assembled list, and the
  assembled preset and speed tables give each name the entry of its most specific
  declaration. The declared tables are dicts, so no key occurs twice in one of them.
\<close>

theorem registry_assembly:
  assumes "declared_dicts AVAILABLE_PRESET_MODES mro"
    and "declared_dicts AVAILABLE_SPEEDS mro"
  shows "(\<forall>cls \<in> set mro. \<forall>entries. AVAILABLE_ATTRIBUTES cls = Some entries \<longrightarrow>
            set entries \<subseteq> set (collect_available_attributes mro)) \<and>
         (\<forall>cls \<in> set mro. \<forall>entries. AVAILABLE_BINARY_SENSORS cls = Some entries \<longrightarrow>
            set entries \<subseteq> set (available_binary_sensors mro)) \<and>
         (\<forall>cls \<in> set mro. \<forall>entries. UNAVAILABLE_FILTERS cls = Some entries \<longrightarrow>
            set entries \<subseteq> set (unavailable_filters mro)) \<and>
         (\<forall>name. map_of (collect_available_preset_modes mro) name =
            most_specific AVAILABLE_PRESET_MODES mro name) \<and>
         (\<forall>name. map_of (collect_available_speeds mro) name =
            most_specific AVAILABLE_SPEEDS mro name)"
  using assms
  by (simp add: collect_available_attributes_def available_binary_sensors_def
        unavailable_filters_def collect_available_preset_modes_def
        collect_available_speeds_def collect_lists_contains collect_dicts_most_specific)

theorem registry_assembly_witness:
  "declared_dicts AVAILABLE_PRESET_MODES [sample_model, sample_family, sample_base] \<and>
   declared_dicts AVAILABLE_SPEEDS [sample_model, sample_family, sample_base] \<and>
   sample_base \<in> set [sample_model, sample_family, sample_base] \<and>
   set [(''name'', ''name'', None)]
     \<subseteq> set (collect_available_attributes [sample_model, sample_family, sample_base]) \<and>
   map_of (collect_available_preset_modes [sample_model, sample_family, sample_base]) ''auto''
     = Some [(''mode'', VStr ''AG'')]"
proof -
  let ?mro = "[sample_model, sample_family, sample_base]"
  have h1: "declared_dicts AVAILABLE_PRESET_MODES ?mro"
    by (simp add: declared_dicts_def sample_model_def sample_family_def sample_base_def)
  have h2: "declared_dicts AVAILABLE_SPEEDS ?mro"
    by (simp add: declared_dicts_def sample_model_def sample_family_def sample_base_def)
  show ?thesis
    using h1 h2 registry_assembly [OF h1 h2]
    by (simp add: sample_model_def sample_family_def sample_base_def)
qed

subsection \<open>Device family resolution\<close>

text \<open>
  C9. Family resolution tries three candidates in this order: the model string, the
  model string followed by a space and the part of the WiFi version before the first
  \<open>@\<close>, and the first six characters of the model string. The first candidate that is a
  key of the model table is returned; when none is, the result is \<^verbatim>\<open>None\<close> and the
  flow aborts with \<^verbatim>\<open>model_unsupported\<close>. So \<^verbatim>\<open>AC3033/10\<close> without an entry
  of its own or of its firmware resolves to the family \<^verbatim>\<open>AC3033\<close>, and a model that
  is registered as it stands resolves to itself.
\<close>

theorem resolve_model_priority:
  "resolve_model model_to_class (Some wifi) model =
     Inr (if model \<in> model_to_class then Some model
          else if model @ '' '' @ takeWhile (\<lambda>ch. ch \<noteq> CHR ''@'') wifi \<in> model_to_class
          then Some (model @ '' '' @ takeWhile (\<lambda>ch. ch \<noteq> CHR ''@'') wifi)
          else if take 6 model \<in> model_to_class then Some (take 6 model)
          else None) \<and>
   (resolve_model model_to_class (Some wifi) model = Inr None \<longrightarrow>
      resolve_or_abort model_to_class (Some wifi) model = Inr (Abort ''model_unsupported'')) \<and>
   (\<forall>resolved. resolve_model model_to_class (Some wifi) model = Inr (Some resolved) \<longrightarrow>
      resolve_or_abort model_to_class (Some wifi) model = Inr (Continue resolved)) \<and>
   (''AC3033/10'' \<notin> model_to_class \<and>
    ''AC3033/10 '' @ takeWhile (\<lambda>ch. ch \<noteq> CHR ''@'') wifi \<notin> model_to_class \<and>
    ''AC3033'' \<in> model_to_class \<longrightarrow>
      resolve_model model_to_class (Some wifi) ''AC3033/10'' = Inr (Some ''AC3033'')) \<and>
   (model \<in> model_to_class \<longrightarrow>
      resolve_model model_to_class (Some wifi) model = Inr (Some model))"
  by (simp add: resolve_model_def resolve_or_abort_def Let_def)

theorem resolve_model_priority_witness:
  "resolve_model {''AC3033'', ''AC0850/11 AWS_Philips_AIR''} (Some ''AWS_Philips_AIR@1.0.0'') ''AC3033/10''
     = Inr (Some ''AC3033'') \<and>
   resolve_model {''AC3033'', ''AC3033/10''} (Some ''AWS_Philips_AIR@1.0.0'') ''AC3033/10''
     = Inr (Some ''AC3033/10'') \<and>
   resolve_model {''AC0850'', ''AC0850/11 AWS_Philips_AIR''} (Some ''AWS_Philips_AIR@1.0.0'') ''AC0850/11''
     = Inr (Some ''AC0850/11 AWS_Philips_AIR'') \<and>
   resolve_or_abort {''AC3033''} (Some ''AWS_Philips_AIR@1.0.0'') ''HU1509/00''
     = Inr (Abort ''model_unsupported'')"
  using resolve_model_priority [of "{''AC3033'', ''AC0850/11 AWS_Philips_AIR''}"
          "''AWS_Philips_AIR@1.0.0''" "''AC3033/10''"]
        resolve_model_priority [of "{''AC3033'', ''AC3033/10''}"
          "''AWS_Philips_AIR@1.0.0''" "''AC3033/10''"]
        resolve_model_priority [of "{''AC0850'', ''AC0850/11 AWS_Philips_AIR''}"
          "''AWS_Philips_AIR@1.0.0''" "''AC0850/11''"]
        resolve_model_priority [of "{''AC3033''}" "''AWS_Philips_AIR@1.0.0''" "''HU1509/00''"]
  by simp

subsection \<open>Attribute extraction\<close>

lemma append_attribute_other:
  "append_attribute st acc key' pk' vm' = Inr acc' \<Longrightarrow> key' \<noteq> key \<Longrightarrow>
   map_of acc' key = map_of acc key"
  by (auto simp: append_attribute_def Let_def update_conv'
           split: option.splits value_map.splits entry.splits list.splits)

lemma append_attribute_dict:
  "append_attribute st acc key pk (Some (DictMap m)) = Inr acc' \<Longrightarrow>
   map_of acc' key =
     (case map_of st (takeWhile (\<lambda>ch. ch \<noteq> CHR ''#'') pk) of
        None \<Rightarrow> map_of acc key
      | Some raw \<Rightarrow> displayed m raw)"
  by (auto simp: append_attribute_def Let_def update_conv' displayed_def
           split: option.splits entry.splits list.splits)

lemma extra_state_attributes_loop_dict:
  "extra_state_attributes_loop st acc attrs = Inr out \<Longrightarrow>
   \<forall>(key', pk', vm') \<in> set attrs. key' = key \<longrightarrow> pk' = pk \<and> vm' = Some (DictMap m) \<Longrightarrow>
   map_of out key =
     (if key \<in> fst ` set attrs
      then (case map_of st (takeWhile (\<lambda>ch. ch \<noteq> CHR ''#'') pk) of
              None \<Rightarrow> map_of acc key
            | Some raw \<Rightarrow> displayed m raw)
      else map_of acc key)"
proof (induction attrs arbitrary: acc)
  case Nil
  then show ?case by simp
next
  case (Cons a attrs)
  obtain key' pk' vm' where a: "a = (key', pk', vm')" by (cases a)
  from Cons.prems(1) a obtain acc' where
    step: "append_attribute st acc key' pk' vm' = Inr acc'" and
    rest: "extra_state_attributes_loop st acc' attrs = Inr out"
    by (auto split: sum.splits)
  from Cons.prems(2) have same:
    "\<forall>(key', pk', vm') \<in> set attrs. key' = key \<longrightarrow> pk' = pk \<and> vm' = Some (DictMap m)"
    by simp
  note IH = Cons.IH [OF rest same]
  show ?case
  proof (cases "key' = key")
    case True
    with Cons.prems(2) a have "pk' = pk" "vm' = Some (DictMap m)" by auto
    with step True have acc': "map_of acc' key =
       (case map_of st (takeWhile (\<lambda>ch. ch \<noteq> CHR ''#'') pk) of
          None \<Rightarrow> map_of acc key | Some raw \<Rightarrow> displayed m raw)"
      using append_attribute_dict by blast
    show ?thesis
    proof (cases "map_of st (takeWhile (\<lambda>ch. ch \<noteq> CHR ''#'') pk)")
      case None
      with IH acc' True a show ?thesis by simp
    next
      case (Some raw)
      with IH acc' True a show ?thesis by simp
    qed
  next
    case False
    with step have "map_of acc' key = map_of acc key" by (rule append_attribute_other)
    with IH False a show ?thesis by (simp split: option.splits)
  qed
qed

text \<open>
  C8, as the code has it. For a declared attribute with a dict as value map (all
  declarations of its display key being the same), the output has the display key
  exactly when the raw key, cut at the marker \<open>#\<close>, is in the status. The value shown
  is then the entry of the raw value in the dict (its first component when the entry
  is a tuple), and the raw value itself when the dict has no entry for it.
\<close>

theorem extra_state_attributes_value_map:
  assumes "(key, philips_key, Some (DictMap m)) \<in> set available_attributes"
    and "\<forall>(key', philips_key', value_map') \<in> set available_attributes.
           key' = key \<longrightarrow> philips_key' = philips_key \<and> value_map' = Some (DictMap m)"
    and "extra_state_attributes available_attributes st = Inr out"
  shows "map_of out key =
     (case map_of st (takeWhile (\<lambda>ch. ch \<noteq> CHR ''#'') philips_key) of
        None \<Rightarrow> None
      | Some raw \<Rightarrow> displayed m raw)"
proof -
  from assms(1) have "key \<in> fst ` set available_attributes" by force
  with extra_state_attributes_loop_dict [OF assms(3) [unfolded extra_state_attributes_def] assms(2)]
  show ?thesis by (simp split: option.splits)
qed

theorem extra_state_attributes_value_map_witness:
  "(''preferred_index'', ''ddp#1'',
      Some (DictMap [(VStr ''0'', Tuple [VStr ''Indoor Allergen Index'', VStr ''mdi:blur'']),
                     (VStr ''1'', Tuple [VStr ''PM2.5'', VStr ''mdi:grain''])]))
     \<in> set sample_attributes \<and>
   extra_state_attributes sample_attributes [(''name'', VStr ''Bedroom''), (''ddp'', VStr ''1'')]
     = Inr [(''name'', VStr ''Bedroom''), (''preferred_index'', VStr ''PM2.5'')] \<and>
   map_of [(''name'', VStr ''Bedroom''), (''preferred_index'', VStr ''PM2.5'')] ''preferred_index''
     = displayed [(VStr ''0'', Tuple [VStr ''Indoor Allergen Index'', VStr ''mdi:blur'']),
                  (VStr ''1'', Tuple [VStr ''PM2.5'', VStr ''mdi:grain''])] (VStr ''1'')"
proof -
  let ?m = "[(VStr ''0'', Tuple [VStr ''Indoor Allergen Index'', VStr ''mdi:blur'']),
             (VStr ''1'', Tuple [VStr ''PM2.5'', VStr ''mdi:grain''])]"
  let ?st = "[(''name'', VStr ''Bedroom''), (''ddp'', VStr ''1'')]"
  have h1: "(''preferred_index'', ''ddp#1'', Some (DictMap ?m)) \<in> set sample_attributes"
    by (simp add: sample_attributes_def)
  have h2: "\<forall>(key', philips_key', value_map') \<in> set sample_attributes.
              key' = ''preferred_index'' \<longrightarrow>
              philips_key' = ''ddp#1'' \<and> value_map' = Some (DictMap ?m)"
    by (simp add: sample_attributes_def)
  have h3: "extra_state_attributes sample_attributes ?st
              = Inr [(''name'', VStr ''Bedroom''), (''preferred_index'', VStr ''PM2.5'')]"
    by (simp add: extra_state_attributes_def sample_attributes_def append_attribute_def)
  from extra_state_attributes_value_map [OF h1 h2 h3] h1 h3 show ?thesis by simp
qed

text \<open>
  C8 as stated fails: a raw value that is not a key of the value map is shown as it
  is, not as \<^verbatim>\<open>unknown\<close>.
\<close>

theorem extra_state_attributes_unmapped_raw_value:
  "extra_state_attributes sample_attributes [(''name'', VStr ''Bedroom''), (''ddp'', VStr ''3'')]
     = Inr [(''name'', VStr ''Bedroom''), (''preferred_index'', VStr ''3'')] \<and>
   map_of [(VStr ''0'', Tuple [VStr ''Indoor Allergen Index'', VStr ''mdi:blur'']),
           (VStr ''1'', Tuple [VStr ''PM2.5'', VStr ''mdi:grain''])] (VStr ''3'') = None \<and>
   VStr ''3'' \<noteq> VStr ''unknown''"
  by (simp add: extra_state_attributes_def sample_attributes_def append_attribute_def)

subsection \<open>Filter alert tracker\<close>





subsection \<open>Percentage discretisation\<close>

lemma percentage_item_loop_drop:
  "off \<le> j \<Longrightarrow> j < length xs \<Longrightarrow> p \<le> (int j + 1) * 100 div n \<Longrightarrow>
   (\<forall>i. off \<le> i \<and> i < j \<longrightarrow> \<not> p \<le> (int i + 1) * 100 div n) \<Longrightarrow>
   percentage_item_loop (drop off xs) off n p = Some (xs ! j)"
proof (induction "j - off" arbitrary: off)
  case 0
  then have "off = j" by simp
  with "0.prems" show ?case by (simp add: Cons_nth_drop_Suc [symmetric])
next
  case (Suc d)
  then have lt: "off < j" and len: "off < length xs" by simp_all
  from Suc.prems lt have no: "\<not> p \<le> (int off + 1) * 100 div n" by simp
  have "percentage_item_loop (drop (Suc off) xs) (Suc off) n p = Some (xs ! j)"
    using Suc.hyps Suc.prems lt by (intro Suc.hyps(1)) auto
  with no len show ?case by (simp add: Cons_nth_drop_Suc [symmetric] Let_def)
qed

lemma percentage_to_ordered_list_item_first:
  assumes "j < length xs" and "p \<le> (int j + 1) * 100 div int (length xs)"
    and "\<forall>i < j. \<not> p \<le> (int i + 1) * 100 div int (length xs)"
  shows "percentage_to_ordered_list_item xs p = Inr (xs ! j)"
proof -
  from assms(1) have "xs \<noteq> []" by auto
  moreover have "percentage_item_loop xs 0 (int (length xs)) p = Some (xs ! j)"
    using percentage_item_loop_drop [of 0 j xs p "int (length xs)"] assms by simp
  ultimately show ?thesis by (simp add: percentage_to_ordered_list_item_def)
qed


lemma upper_bound_strict:
  assumes "0 < n" and "n \<le> 100" and "i < j"
  shows "(int i + 1) * 100 div int n < (int j + 1) * 100 div int n"
proof -
  have "((int i + 1) * 100 + int n) div int n = (int i + 1) * 100 div int n + 1"
    using assms(1) by (subst div_add_self2) simp_all
  then have "(int i + 1) * 100 div int n < ((int i + 1) * 100 + int n) div int n"
    by simp
  also have "\<dots> \<le> (int j + 1) * 100 div int n"
    using assms by (intro zdiv_mono1) (auto simp: algebra_simps)
  finally show ?thesis .
qed

lemma list_index_nth: "distinct xs \<Longrightarrow> i < length xs \<Longrightarrow> list_index xs (xs ! i) = i"
proof (induction xs arbitrary: i)
  case Nil
  then show ?case by simp
next
  case (Cons x xs)
  then show ?case by (cases i) auto
qed

lemma percentage_roundtrip_ordinal:
  assumes "distinct xs" and "i < length xs" and "length xs \<le> 100"
  shows "ordered_list_item_to_percentage xs (xs ! i)
           = Inr ((int i + 1) * 100 div int (length xs))"
    and "percentage_to_ordered_list_item xs ((int i + 1) * 100 div int (length xs)) = Inr (xs ! i)"
    and "0 < (int i + 1) * 100 div int (length xs)"
proof -
  from assms show "ordered_list_item_to_percentage xs (xs ! i)
           = Inr ((int i + 1) * 100 div int (length xs))"
    by (simp add: ordered_list_item_to_percentage_def list_index_nth Let_def)
  have "\<forall>k < i. \<not> (int i + 1) * 100 div int (length xs) \<le> (int k + 1) * 100 div int (length xs)"
  proof (intro allI impI)
    fix k assume "k < i"
    moreover from assms(2) have "0 < length xs" by (cases xs) simp_all
    ultimately show "\<not> (int i + 1) * 100 div int (length xs) \<le> (int k + 1) * 100 div int (length xs)"
      using upper_bound_strict [of "length xs" k i] assms(3) by (simp only: not_le)
  qed
  with assms show "percentage_to_ordered_list_item xs ((int i + 1) * 100 div int (length xs)) = Inr (xs ! i)"
    by (intro percentage_to_ordered_list_item_first) simp_all
  have "int (length xs) \<le> (int i + 1) * 100" using assms by simp
  moreover from assms(2) have "0 < int (length xs)" by (cases xs) simp_all
  ultimately show "0 < (int i + 1) * 100 div int (length xs)"
    by (simp only: pos_imp_zdiv_pos_iff)
qed


subsection \<open>Set percentage\<close>





subsection \<open>Round trip of the percentage\<close>

lemma dict_get_dict_update:
  "distinct (map fst p) \<Longrightarrow>
   dict_get (dict_update st p) k = (case map_of p k of None \<Rightarrow> dict_get st k | Some v \<Rightarrow> v)"
  by (simp add: dict_get_def map_of_dict_update map_add_def split: option.splits)

lemma pattern_matches_written:
  assumes "distinct (map fst p)"
  shows "pattern_matches None (dict_update st p) p"
proof -
  have "dict_get (dict_update st p) k = v" if "(k, v) \<in> set p" for k v
    using that assms by (simp add: dict_get_dict_update)
  then show ?thesis
    by (auto simp: pattern_matches_def replace_key_def list_all_iff)
qed

lemma patterns_conflict_no_match:
  assumes "distinct (map fst p)" and "patterns_conflict q p"
  shows "\<not> pattern_matches None (dict_update st p) q"
proof -
  from assms(2) obtain k v v' where "(k, v) \<in> set q" "map_of p k = Some v'" "v' \<noteq> v"
    by (auto simp: patterns_conflict_def list_ex_iff split: option.splits)
  moreover from this assms(1) have "dict_get (dict_update st p) k = v'"
    by (simp add: dict_get_dict_update)
  ultimately have "(k, v) \<in> set q \<and> dict_get (dict_update st p) (replace_key None k) \<noteq> v"
    by (simp add: replace_key_def)
  then show ?thesis
    unfolding pattern_matches_def list_all_iff by fastforce
qed

lemma preset_mode_loop_nth:
  assumes "i < length tbl" and "pattern_matches rep st (snd (tbl ! i))"
    and "\<forall>j < i. \<not> pattern_matches rep st (snd (tbl ! j))"
  shows "preset_mode_loop rep st tbl = Some (fst (tbl ! i))"
proof -
  have "find (\<lambda>(name, p). pattern_matches rep st p) tbl = Some (tbl ! i)"
    unfolding find_Some_iff using assms by (auto simp: case_prod_beta)
  then show ?thesis by (simp add: preset_mode_loop_find)
qed

text \<open>
  The generic fan reads back the percentage it sets. On a fan that uses the commands
  of the generic fan, without a substitution \<^verbatim>\<open>REPLACE_SPEED\<close>, with at most 100
  declared speeds, and for an ordinal \<open>i\<close> such that every speed declared before the
  \<open>i\<close>-th asks for a value of some key to which the pattern of the \<open>i\<close>-th gives
  another one: setting the percentage of the \<open>i\<close>-th speed and reading the percentage
  from the updated status yields that percentage, and the discretisation maps it back
  to the \<open>i\<close>-th speed. That speed names and pattern keys are distinct is the
  invariant of a dict.
\<close>

lemma percentage_roundtrip:
  assumes "REPLACE_SPEED dev = None"
    and "distinct (speeds dev)"
    and "list_all (\<lambda>(name, p). distinct (map fst p)) (available_speeds dev)"
    and "length (speeds dev) \<le> 100"
    and "i < length (speeds dev)"
    and "\<forall>j < i. patterns_conflict (snd (available_speeds dev ! j)) (snd (available_speeds dev ! i))"
  shows "\<exists>pct st' log'.
           ordered_list_item_to_percentage (speeds dev) (speeds dev ! i) = Inr pct \<and>
           percentage_to_ordered_list_item (speeds dev) pct = Inr (speeds dev ! i) \<and>
           async_set_percentage dev (st, log) pct = Inr (st', log') \<and>
           percentage dev st' = Inr (Some pct)"
proof -
  let ?tbl = "available_speeds dev"
  let ?p = "snd (?tbl ! i)"
  let ?pct = "(int i + 1) * 100 div int (length (speeds dev))"
  from assms(5) have i: "i < length ?tbl" by (simp add: speeds_def)
  have name: "speeds dev ! i = fst (?tbl ! i)" using i by (simp add: speeds_def)
  note rt = percentage_roundtrip_ordinal [OF assms(2) assms(5) assms(4)]
  from i have mem: "(speeds dev ! i, ?p) \<in> set ?tbl" by (simp add: name)
  with assms(2) have lookup: "map_of ?tbl (speeds dev ! i) = Some ?p"
    by (simp add: speeds_def)
  from mem assms(3) have dist: "distinct (map fst ?p)" by (auto simp: list_all_iff)
  from rt(2) rt(3) lookup have run: "async_set_percentage dev (st, log) ?pct =
      Inr (dict_update st ?p,
           log @ (if ?p \<noteq> [] then [SetControlValues ?p] else []) @ [HandleCoordinatorUpdate])"
    by (simp add: async_set_percentage_def)
  have "\<forall>j < i. \<not> pattern_matches None (dict_update st ?p) (snd (?tbl ! j))"
    using assms(6) patterns_conflict_no_match [OF dist] by blast
  with i pattern_matches_written [OF dist]
  have "preset_mode_loop None (dict_update st ?p) ?tbl = Some (fst (?tbl ! i))"
    by (intro preset_mode_loop_nth) simp_all
  then have "percentage dev (dict_update st ?p) = Inr (Some ?pct)"
    using rt(1) by (simp add: percentage_def assms(1) name)
  with rt(1) rt(2) run show ?thesis by blast
qed

lemma percentage_roundtrip_on_AC29xx:
  "REPLACE_SPEED (PhilipsAC29xx sample_consts) = None \<and>
   distinct (speeds (PhilipsAC29xx sample_consts)) \<and>
   list_all (\<lambda>(name, p). distinct (map fst p)) (available_speeds (PhilipsAC29xx sample_consts)) \<and>
   length (speeds (PhilipsAC29xx sample_consts)) \<le> 100 \<and>
   1 < length (speeds (PhilipsAC29xx sample_consts)) \<and>
   patterns_conflict (snd (available_speeds (PhilipsAC29xx sample_consts) ! 0))
                     (snd (available_speeds (PhilipsAC29xx sample_consts) ! 1)) \<and>
   ordered_list_item_to_percentage (speeds (PhilipsAC29xx sample_consts)) ''gentle'' = Inr 66 \<and>
   async_set_percentage (PhilipsAC29xx sample_consts) ([(''pwr'', VStr ''0'')], []) 66 =
     Inr ([(''pwr'', VStr ''1''), (''mode'', VStr ''GT'')],
          [SetControlValues [(''pwr'', VStr ''1''), (''mode'', VStr ''GT'')],
           HandleCoordinatorUpdate]) \<and>
   percentage (PhilipsAC29xx sample_consts) [(''pwr'', VStr ''1''), (''mode'', VStr ''GT'')]
     = Inr (Some 66)"
proof -
  let ?dev = "PhilipsAC29xx sample_consts"
  have tbl: "available_speeds ?dev =
     [(''sleep'', [(''pwr'', VStr ''1''), (''mode'', VStr ''S'')]),
      (''gentle'', [(''pwr'', VStr ''1''), (''mode'', VStr ''GT'')]),
      (''turbo'', [(''pwr'', VStr ''1''), (''mode'', VStr ''T'')])]"
    by (simp add: PhilipsAC29xx_def sample_consts_def dict_of_def dict_update_def)
  have rep: "REPLACE_SPEED ?dev = None" by (simp add: PhilipsAC29xx_def)
  have h2: "distinct (speeds ?dev)" by (simp add: speeds_def tbl)
  have h3: "list_all (\<lambda>(name, p). distinct (map fst p)) (available_speeds ?dev)"
    by (simp add: tbl)
  have h4: "length (speeds ?dev) \<le> 100" by (simp add: speeds_def tbl)
  have h5: "1 < length (speeds ?dev)" by (simp add: speeds_def tbl)
  have h6: "\<forall>j < 1. patterns_conflict (snd (available_speeds ?dev ! j))
                                       (snd (available_speeds ?dev ! 1))"
    by (simp add: tbl patterns_conflict_def)
  have pct: "ordered_list_item_to_percentage (speeds ?dev) (speeds ?dev ! 1) = Inr 66"
    by (simp add: speeds_def tbl ordered_list_item_to_percentage_def)
  from percentage_roundtrip [OF rep h2 h3 h4 h5 h6, of "[(''pwr'', VStr ''0'')]" "[]"] pct
  obtain st' log' where
    run: "async_set_percentage ?dev ([(''pwr'', VStr ''0'')], []) 66 = Inr (st', log')"
    and reread: "percentage ?dev st' = Inr (Some 66)"
    by auto
  have eval: "async_set_percentage ?dev ([(''pwr'', VStr ''0'')], []) 66 =
     Inr ([(''pwr'', VStr ''1''), (''mode'', VStr ''GT'')],
          [SetControlValues [(''pwr'', VStr ''1''), (''mode'', VStr ''GT'')],
           HandleCoordinatorUpdate])"
    by (simp add: async_set_percentage_def speeds_def tbl percentage_to_ordered_list_item_def
          dict_update_def)
  with run reread have "percentage ?dev [(''pwr'', VStr ''1''), (''mode'', VStr ''GT'')]
     = Inr (Some 66)" by simp
  moreover have "patterns_conflict (snd (available_speeds ?dev ! 0))
                                   (snd (available_speeds ?dev ! 1))"
    by (simp add: tbl patterns_conflict_def)
  ultimately show ?thesis
    using rep h2 h3 h4 h5 pct eval by (simp add: speeds_def tbl)
qed

subsection \<open>The sequenced commands of the AC1214\<close>

lemma ensure_mode_transition_effects:
  assumes "map_of (available_preset_modes dev) (PresetMode_ALLERGEN c) = Some a"
  shows "ensure_mode_transition c dev (st, log) target =
     Inr (st, log @
       (if target \<noteq> VStr ''A'' \<and>
           (\<exists>current cp. preset_mode dev st = Some current \<and>
              map_of (available_preset_modes dev) current = Some cp \<and> cp \<noteq> [] \<and>
              dict_get cp (PhilipsApi_MODE c) \<noteq> VStr ''M'')
        then [SetControlValues a, Sleep 1] else []))"
  using assms by (auto simp: ensure_mode_transition_def Let_def split: option.splits)

text \<open>
  C5, as the code has it. A change of preset or speed on the AC1214 first writes the
  power on and pauses one second when the device is off. Then, when the mode of the
  target pattern is not \<open>A\<close> and the status matches a declared preset whose pattern
  is not empty and does not have the mode \<open>M\<close>, it writes the allergen pattern and
  pauses one second. The target pattern is written last. The local status stays as it
  was.
\<close>

theorem ac1214_sequencing:
  assumes "map_of (available_preset_modes dev) (PresetMode_ALLERGEN c) = Some a"
  shows "(map_of (available_preset_modes dev) preset = Some p \<and> p \<noteq> [] \<longrightarrow>
      ac1214_async_set_preset_mode c dev (st, log) preset =
        Inr (st, log
          @ (if is_on dev st then []
             else [SetControlValue (PhilipsApi_POWER c) (POWER_MAP_SWITCH_ON c), Sleep 1])
          @ (if dict_get p (PhilipsApi_MODE c) \<noteq> VStr ''A'' \<and>
                (\<exists>current cp. preset_mode dev st = Some current \<and>
                   map_of (available_preset_modes dev) current = Some cp \<and> cp \<noteq> [] \<and>
                   dict_get cp (PhilipsApi_MODE c) \<noteq> VStr ''M'')
             then [SetControlValues a, Sleep 1] else [])
          @ [SetControlValues p])) \<and>
     (pct \<noteq> 0 \<and> percentage_to_ordered_list_item (speeds dev) pct = Inr speed \<and>
      map_of (available_speeds dev) speed = Some q \<and> q \<noteq> [] \<longrightarrow>
      ac1214_async_set_percentage c dev (st, log) pct =
        Inr (st, log
          @ (if is_on dev st then []
             else [SetControlValue (PhilipsApi_POWER c) (POWER_MAP_SWITCH_ON c), Sleep 1])
          @ (if dict_get q (PhilipsApi_MODE c) \<noteq> VStr ''A'' \<and>
                (\<exists>current cp. preset_mode dev st = Some current \<and>
                   map_of (available_preset_modes dev) current = Some cp \<and> cp \<noteq> [] \<and>
                   dict_get cp (PhilipsApi_MODE c) \<noteq> VStr ''M'')
             then [SetControlValues a, Sleep 1] else [])
          @ [SetControlValues q]))"
  by (simp add: ac1214_async_set_preset_mode_def ac1214_async_set_percentage_def
        ensure_power_on_def ensure_mode_transition_effects [OF assms] Let_def)

lemma PhilipsAC1214_sample_presets:
  "available_preset_modes (PhilipsAC1214 sample_consts) =
     [(''auto'', [(''mode'', VStr ''P'')]),
      (''allergen'', [(''mode'', VStr ''A'')]),
      (''night'', [(''mode'', VStr ''N'')]),
      (''speed 1'', [(''mode'', VStr ''M''), (''om'', VStr ''1'')]),
      (''speed 2'', [(''mode'', VStr ''M''), (''om'', VStr ''2'')]),
      (''speed 3'', [(''mode'', VStr ''M''), (''om'', VStr ''3'')]),
      (''turbo'', [(''mode'', VStr ''M''), (''om'', VStr ''t'')])]"
  by (simp add: PhilipsAC1214_def sample_consts_def dict_of_def dict_update_def)

lemma PhilipsAC1214_sample_speeds:
  "available_speeds (PhilipsAC1214 sample_consts) =
     [(''night'', [(''mode'', VStr ''N'')]),
      (''speed 1'', [(''mode'', VStr ''M''), (''om'', VStr ''1'')]),
      (''speed 2'', [(''mode'', VStr ''M''), (''om'', VStr ''2'')]),
      (''speed 3'', [(''mode'', VStr ''M''), (''om'', VStr ''3'')]),
      (''turbo'', [(''mode'', VStr ''M''), (''om'', VStr ''t'')])]"
  by (simp add: PhilipsAC1214_def sample_consts_def dict_of_def dict_update_def)

lemma PhilipsAC1214_sample_fields:
  "KEY_PHILIPS_POWER (PhilipsAC1214 sample_consts) = ''pwr''"
  "STATE_POWER_ON (PhilipsAC1214 sample_consts) = VStr ''1''"
  "STATE_POWER_OFF (PhilipsAC1214 sample_consts) = VStr ''0''"
  "REPLACE_PRESET (PhilipsAC1214 sample_consts) = None"
  "REPLACE_SPEED (PhilipsAC1214 sample_consts) = None"
  "PhilipsApi_POWER sample_consts = ''pwr''"
  "PhilipsApi_MODE sample_consts = ''mode''"
  "POWER_MAP_SWITCH_ON sample_consts = VStr ''1''"
  "PresetMode_ALLERGEN sample_consts = ''allergen''"
  by (simp_all add: PhilipsAC1214_def sample_consts_def)

theorem ac1214_sequencing_witness:
  "map_of (available_preset_modes (PhilipsAC1214 sample_consts)) (PresetMode_ALLERGEN sample_consts)
     = Some [(''mode'', VStr ''A'')] \<and>
   map_of (available_preset_modes (PhilipsAC1214 sample_consts)) ''night''
     = Some [(''mode'', VStr ''N'')] \<and>
   ac1214_async_set_preset_mode sample_consts (PhilipsAC1214 sample_consts)
       ([(''pwr'', VStr ''0''), (''mode'', VStr ''P'')], []) ''night'' =
     Inr ([(''pwr'', VStr ''0''), (''mode'', VStr ''P'')],
          [SetControlValue ''pwr'' (VStr ''1''), Sleep 1,
           SetControlValues [(''mode'', VStr ''A'')], Sleep 1,
           SetControlValues [(''mode'', VStr ''N'')]]) \<and>
   percentage_to_ordered_list_item (speeds (PhilipsAC1214 sample_consts)) 40 = Inr ''speed 1'' \<and>
   ac1214_async_set_percentage sample_consts (PhilipsAC1214 sample_consts)
       ([(''pwr'', VStr ''1''), (''mode'', VStr ''M''), (''om'', VStr ''3'')], []) 40 =
     Inr ([(''pwr'', VStr ''1''), (''mode'', VStr ''M''), (''om'', VStr ''3'')],
          [SetControlValues [(''mode'', VStr ''M''), (''om'', VStr ''1'')]])"
proof -
  let ?c = sample_consts
  let ?dev = "PhilipsAC1214 sample_consts"
  have a: "map_of (available_preset_modes ?dev) (PresetMode_ALLERGEN ?c)
             = Some [(''mode'', VStr ''A'')]"
    by (simp add: PhilipsAC1214_sample_presets PhilipsAC1214_sample_fields)
  have n: "map_of (available_preset_modes ?dev) ''night'' = Some [(''mode'', VStr ''N'')]"
    by (simp add: PhilipsAC1214_sample_presets)
  have item: "percentage_to_ordered_list_item (speeds ?dev) 40 = Inr ''speed 1''"
    by (simp add: speeds_def PhilipsAC1214_sample_speeds percentage_to_ordered_list_item_def)
  have q: "map_of (available_speeds ?dev) ''speed 1''
             = Some [(''mode'', VStr ''M''), (''om'', VStr ''1'')]"
    by (simp add: PhilipsAC1214_sample_speeds)
  note seq = ac1214_sequencing [OF a]
  have "ac1214_async_set_preset_mode ?c ?dev
       ([(''pwr'', VStr ''0''), (''mode'', VStr ''P'')], []) ''night'' =
     Inr ([(''pwr'', VStr ''0''), (''mode'', VStr ''P'')],
          [SetControlValue ''pwr'' (VStr ''1''), Sleep 1,
           SetControlValues [(''mode'', VStr ''A'')], Sleep 1,
           SetControlValues [(''mode'', VStr ''N'')]])"
    using seq [where preset = "''night''" and p = "[(''mode'', VStr ''N'')]"
               and st = "[(''pwr'', VStr ''0''), (''mode'', VStr ''P'')]" and log = "[]"] n
    by (simp add: is_on_def dict_get_def preset_mode_def PhilipsAC1214_sample_presets
          PhilipsAC1214_sample_fields)
  moreover have "ac1214_async_set_percentage ?c ?dev
       ([(''pwr'', VStr ''1''), (''mode'', VStr ''M''), (''om'', VStr ''3'')], []) 40 =
     Inr ([(''pwr'', VStr ''1''), (''mode'', VStr ''M''), (''om'', VStr ''3'')],
          [SetControlValues [(''mode'', VStr ''M''), (''om'', VStr ''1'')]])"
    using seq [where pct = 40 and speed = "''speed 1''"
               and q = "[(''mode'', VStr ''M''), (''om'', VStr ''1'')]"
               and st = "[(''pwr'', VStr ''1''), (''mode'', VStr ''M''), (''om'', VStr ''3'')]"
               and log = "[]"]
          item q
    by (simp add: is_on_def dict_get_def preset_mode_def PhilipsAC1214_sample_presets
          PhilipsAC1214_sample_fields)
  ultimately show ?thesis using a n item by simp
qed

text \<open>
  C5 as stated fails on a status that matches no declared preset: the device is on,
  the target mode is \<open>N\<close>, the current mode is not \<open>M\<close>, and the target pattern is
  written without the allergen pattern before it.
\<close>

theorem ac1214_unmatched_status_no_intermediate:
  "preset_mode (PhilipsAC1214 sample_consts) [(''pwr'', VStr ''1''), (''mode'', VStr ''B'')] = None \<and>
   dict_get [(''pwr'', VStr ''1''), (''mode'', VStr ''B'')] ''mode'' \<noteq> VStr ''M'' \<and>
   map_of (available_preset_modes (PhilipsAC1214 sample_consts)) ''night''
     = Some [(''mode'', VStr ''N'')] \<and>
   ac1214_async_set_preset_mode sample_consts (PhilipsAC1214 sample_consts)
       ([(''pwr'', VStr ''1''), (''mode'', VStr ''B'')], []) ''night'' =
     Inr ([(''pwr'', VStr ''1''), (''mode'', VStr ''B'')],
          [SetControlValues [(''mode'', VStr ''N'')]])"
  by (simp add: ac1214_async_set_preset_mode_def ensure_power_on_def ensure_mode_transition_def
        is_on_def dict_get_def preset_mode_def PhilipsAC1214_sample_presets
        PhilipsAC1214_sample_fields Let_def)

subsection \<open>Optimistic update of the status\<close>

text \<open>
  C6 on the AC1214: the device is on and in the auto preset, and the allergen preset
  is set. The pattern goes to the transport, the local status is not touched and the
  preset read from it is still auto. The command of the generic fan, on the same
  device and status, writes the pattern into the status, which then reads allergen.
\<close>

theorem ac1214_set_preset_mode_keeps_status:
  "ac1214_async_set_preset_mode sample_consts (PhilipsAC1214 sample_consts)
       ([(''pwr'', VStr ''1''), (''mode'', VStr ''P'')], []) ''allergen'' =
     Inr ([(''pwr'', VStr ''1''), (''mode'', VStr ''P'')],
          [SetControlValues [(''mode'', VStr ''A'')]]) \<and>
   preset_mode (PhilipsAC1214 sample_consts) [(''pwr'', VStr ''1''), (''mode'', VStr ''P'')]
     = Some ''auto'' \<and>
   async_set_preset_mode (PhilipsAC1214 sample_consts)
       ([(''pwr'', VStr ''1''), (''mode'', VStr ''P'')], []) ''allergen'' =
     ([(''pwr'', VStr ''1''), (''mode'', VStr ''A'')],
      [SetControlValues [(''mode'', VStr ''A'')], HandleCoordinatorUpdate]) \<and>
   preset_mode (PhilipsAC1214 sample_consts) [(''pwr'', VStr ''1''), (''mode'', VStr ''A'')]
     = Some ''allergen''"
  by (simp add: ac1214_async_set_preset_mode_def ensure_power_on_def ensure_mode_transition_def
        async_set_preset_mode_def dict_update_def
        is_on_def dict_get_def preset_mode_def PhilipsAC1214_sample_presets
        PhilipsAC1214_sample_fields Let_def)

text \<open>
  C3 on the AC1214, which has five speeds with the percentages 20, 40, 60, 80 and 100.
  The device is on at the fourth speed and the percentage of the second speed, 40, is
  set. The pattern of the second speed goes to the transport, the local status is not
  touched, and the percentage read from it is still 80. The command of the generic
  fan, on the same device and status, writes the pattern into the status, which then
  reads 40.
\<close>

theorem ac1214_percentage_not_read_back:
  "ordered_list_item_to_percentage (speeds (PhilipsAC1214 sample_consts)) ''speed 1'' = Inr 40 \<and>
   percentage_to_ordered_list_item (speeds (PhilipsAC1214 sample_consts)) 40 = Inr ''speed 1'' \<and>
   ac1214_async_set_percentage sample_consts (PhilipsAC1214 sample_consts)
       ([(''pwr'', VStr ''1''), (''mode'', VStr ''M''), (''om'', VStr ''3'')], []) 40 =
     Inr ([(''pwr'', VStr ''1''), (''mode'', VStr ''M''), (''om'', VStr ''3'')],
          [SetControlValues [(''mode'', VStr ''M''), (''om'', VStr ''1'')]]) \<and>
   percentage (PhilipsAC1214 sample_consts)
       [(''pwr'', VStr ''1''), (''mode'', VStr ''M''), (''om'', VStr ''3'')] = Inr (Some 80) \<and>
   async_set_percentage (PhilipsAC1214 sample_consts)
       ([(''pwr'', VStr ''1''), (''mode'', VStr ''M''), (''om'', VStr ''3'')], []) 40 =
     Inr ([(''pwr'', VStr ''1''), (''mode'', VStr ''M''), (''om'', VStr ''1'')],
          [SetControlValues [(''mode'', VStr ''M''), (''om'', VStr ''1'')],
           HandleCoordinatorUpdate]) \<and>
   percentage (PhilipsAC1214 sample_consts)
       [(''pwr'', VStr ''1''), (''mode'', VStr ''M''), (''om'', VStr ''1'')] = Inr (Some 40)"
  by (simp add: ac1214_async_set_percentage_def ensure_power_on_def ensure_mode_transition_def
        async_set_percentage_def dict_update_def percentage_def
        ordered_list_item_to_percentage_def percentage_to_ordered_list_item_def speeds_def
        is_on_def dict_get_def preset_mode_def PhilipsAC1214_sample_presets
        PhilipsAC1214_sample_speeds PhilipsAC1214_sample_fields Let_def)

end
